theory Spec2Isabelle
  imports Complex_Main "HOL-Library.Sublist"
begin

section \<open>Publication metrics tracker: the embedding\<close>

text \<open>
  The program is the single script \<^verbatim>\<open>src/publication_tracker.py\<close>. Its functions are
  translated one by one. Network calls and third-party libraries are inputs of the
  model: a function that performs a request takes the outcome of that request as an
  argument, and every exception the script can meet is a value.
\<close>

subsection \<open>Python values\<close>

text \<open>
  A Python object as the script handles it: \<^verbatim>\<open>None\<close>, a bool, an int (unbounded), a
  float, a str, a list or a dict with string keys (the shapes \<^verbatim>\<open>r.json()\<close> returns).
  A dict is an association list in insertion order, read with \<open>map_of\<close>. A finite float
  is represented by its exact rational value.

  A \<^verbatim>\<open>str\<close> is a list of code points; the model covers the code points below 256
  (Latin-1), one \<open>char\<close> each, so that \<open>length\<close> is Python's \<^verbatim>\<open>len\<close>.
\<close>

datatype pyval =
    PyNone
  | PyBool bool
  | PyInt int
  | PyFloat rat
  | PyStr string
  | PyList "pyval list"
  | PyDict "(string \<times> pyval) list"

subsection \<open>Strings: \<^verbatim>\<open>lower\<close>, \<^verbatim>\<open>strip\<close>, \<^verbatim>\<open>split(":")[0]\<close>, \<^verbatim>\<open>in\<close>\<close>

text \<open>
  \<^verbatim>\<open>str.isspace\<close> on Latin-1: the code points 9 to 13, 28 to 32, 133 and 160.
\<close>

definition py_isspace :: "char \<Rightarrow> bool" where
  "py_isspace c \<longleftrightarrow> c \<in> set [CHR 0x09, CHR 0x0A, CHR 0x0B, CHR 0x0C, CHR 0x0D,
     CHR 0x1C, CHR 0x1D, CHR 0x1E, CHR 0x1F, CHR 0x20, CHR 0x85, CHR 0xA0]"

text \<open>
  \<^verbatim>\<open>str.lower\<close> on Latin-1 maps A to Z and the code points 192 to 222 except 215 (the
  multiplication sign) to the code point 32 above, and leaves every other one alone.
\<close>

definition upper_chars :: "char list" where
  "upper_chars = ''ABCDEFGHIJKLMNOPQRSTUVWXYZ'' @
     [CHR 0xC0, CHR 0xC1, CHR 0xC2, CHR 0xC3, CHR 0xC4, CHR 0xC5, CHR 0xC6, CHR 0xC7,
      CHR 0xC8, CHR 0xC9, CHR 0xCA, CHR 0xCB, CHR 0xCC, CHR 0xCD, CHR 0xCE, CHR 0xCF,
      CHR 0xD0, CHR 0xD1, CHR 0xD2, CHR 0xD3, CHR 0xD4, CHR 0xD5, CHR 0xD6,
      CHR 0xD8, CHR 0xD9, CHR 0xDA, CHR 0xDB, CHR 0xDC, CHR 0xDD, CHR 0xDE]"

definition lower_chars :: "char list" where
  "lower_chars = ''abcdefghijklmnopqrstuvwxyz'' @
     [CHR 0xE0, CHR 0xE1, CHR 0xE2, CHR 0xE3, CHR 0xE4, CHR 0xE5, CHR 0xE6, CHR 0xE7,
      CHR 0xE8, CHR 0xE9, CHR 0xEA, CHR 0xEB, CHR 0xEC, CHR 0xED, CHR 0xEE, CHR 0xEF,
      CHR 0xF0, CHR 0xF1, CHR 0xF2, CHR 0xF3, CHR 0xF4, CHR 0xF5, CHR 0xF6,
      CHR 0xF8, CHR 0xF9, CHR 0xFA, CHR 0xFB, CHR 0xFC, CHR 0xFD, CHR 0xFE]"

definition py_lower_char :: "char \<Rightarrow> char" where
  "py_lower_char c =
     (case map_of (zip upper_chars lower_chars) c of Some l \<Rightarrow> l | None \<Rightarrow> c)"

definition py_lower :: "string \<Rightarrow> string" where
  "py_lower s = map py_lower_char s"

definition py_lstrip :: "string \<Rightarrow> string" where
  "py_lstrip s = dropWhile py_isspace s"

definition py_rstrip :: "string \<Rightarrow> string" where
  "py_rstrip s = rev (dropWhile py_isspace (rev s))"

definition py_strip :: "string \<Rightarrow> string" where
  "py_strip s = py_rstrip (py_lstrip s)"

text \<open>\<^verbatim>\<open>s.split(":")[0]\<close>: the text before the first colon, all of \<open>s\<close> when it has none.\<close>

definition split_colon_0 :: "string \<Rightarrow> string" where
  "split_colon_0 s = takeWhile (\<lambda>c. c \<noteq> CHR '':'') s"

text \<open>
  \<^verbatim>\<open>a in b\<close> on two strings is \<open>sublist a b\<close> of the library: \<open>b\<close> has \<open>a\<close> as a
  contiguous run (the empty string is in every string).
\<close>

subsection \<open>The title reconciler: \<^verbatim>\<open>get_engrxiv_stats_from_cache\<close>\<close>

text \<open>
  The global \<^verbatim>\<open>engrxiv_cache\<close> is an argument: the dict as the list of its items in
  insertion order. Each \<^verbatim>\<open>for\<close> loop is a scan that stops at the first \<^verbatim>\<open>return\<close>;
  \<open>None\<close> says the loop ran to its end.
\<close>

fun tier1_scan :: "string \<Rightarrow> (string \<times> int) list \<Rightarrow> int option" where
  "tier1_scan t_target [] = None"
| "tier1_scan t_target ((cached_title, downloads) # rest) =
     (let t_cached = py_strip (py_lower cached_title)
      in if sublist t_target t_cached \<or> sublist t_cached t_target
         then (if length t_cached > 10 then Some downloads
               else tier1_scan t_target rest)
         else tier1_scan t_target rest)"

fun tier2_scan :: "string \<Rightarrow> (string \<times> int) list \<Rightarrow> int option" where
  "tier2_scan t_target_base [] = None"
| "tier2_scan t_target_base ((cached_title, downloads) # rest) =
     (let t_cached_base = py_strip (split_colon_0 (py_lower cached_title))
      in if t_target_base = t_cached_base \<and> length t_target_base > 5
         then Some downloads
         else tier2_scan t_target_base rest)"

definition get_engrxiv_stats_from_cache ::
    "(string \<times> int) list \<Rightarrow> string \<Rightarrow> pyval \<times> int" where
  "get_engrxiv_stats_from_cache engrxiv_cache target_title =
     (if engrxiv_cache = [] then (PyNone, 0)
      else
        let t_target = py_strip (py_lower target_title) in
        case tier1_scan t_target engrxiv_cache of
          Some downloads \<Rightarrow> (PyNone, downloads)
        | None \<Rightarrow>
            (let t_target_base = py_strip (split_colon_0 t_target) in
             case tier2_scan t_target_base engrxiv_cache of
               Some downloads \<Rightarrow> (PyNone, downloads)
             | None \<Rightarrow> (PyNone, 0)))"

text \<open>
  The specification's vocabulary, for comparison with the code: a title is normalized
  by lowercasing and trimming; Tier 1 accepts a cache entry on a substring relation in
  either direction with a cached title longer than 10; Tier 2 compares the normalized
  text left of the first colon and asks for more than 5 characters.
\<close>

definition normalize_title :: "string \<Rightarrow> string" where
  "normalize_title s = py_strip (py_lower s)"

definition tier1_match :: "string \<Rightarrow> string \<times> int \<Rightarrow> bool" where
  "tier1_match canonical entry \<longleftrightarrow>
     (sublist (normalize_title canonical) (normalize_title (fst entry))
        \<or> sublist (normalize_title (fst entry)) (normalize_title canonical))
     \<and> length (normalize_title (fst entry)) > 10"

definition left_segment :: "string \<Rightarrow> string" where
  "left_segment s = normalize_title (takeWhile (\<lambda>c. c \<noteq> CHR '':'') s)"

definition tier2_match :: "string \<Rightarrow> string \<times> int \<Rightarrow> bool" where
  "tier2_match canonical entry \<longleftrightarrow>
     left_segment (fst entry) = left_segment canonical
     \<and> length (left_segment canonical) > 5"

subsection \<open>Exceptions and the operations on Python values\<close>

text \<open>
  The exceptions the script can meet. \<open>RequestError\<close> stands for whatever
  \<^verbatim>\<open>requests.get\<close> raises (connection failure, timeout), \<open>JSONDecodeError\<close> for a
  failing \<^verbatim>\<open>r.json()\<close>, \<open>LibraryError\<close> for a failure inside a third-party library.
\<close>

datatype py_error =
    RequestError
  | JSONDecodeError
  | KeyError
  | IndexError
  | TypeError
  | AttributeError
  | ZeroDivisionError
  | OverflowError
  | LibraryError

text \<open>Sequencing of statements that may raise: the first exception ends the block.\<close>

definition and_then :: "py_error + 'a \<Rightarrow> ('a \<Rightarrow> py_error + 'b) \<Rightarrow> py_error + 'b" where
  "and_then m f = (case m of Inl e \<Rightarrow> Inl e | Inr x \<Rightarrow> f x)"

text \<open>Truthiness, as \<^verbatim>\<open>if x:\<close> and \<^verbatim>\<open>if not x:\<close> read it.\<close>

fun py_bool :: "pyval \<Rightarrow> bool" where
  "py_bool PyNone = False"
| "py_bool (PyBool b) = b"
| "py_bool (PyInt n) = (n \<noteq> 0)"
| "py_bool (PyFloat r) = (r \<noteq> 0)"
| "py_bool (PyStr s) = (s \<noteq> [])"
| "py_bool (PyList xs) = (xs \<noteq> [])"
| "py_bool (PyDict kvs) = (kvs \<noteq> [])"

text \<open>
  \<^verbatim>\<open>x[key]\<close> with a string key: only a dict accepts it (\<open>KeyError\<close> when the key is
  missing); every other object raises \<open>TypeError\<close>.
\<close>

fun getitem_str :: "pyval \<Rightarrow> string \<Rightarrow> py_error + pyval" where
  "getitem_str (PyDict kvs) k = (case map_of kvs k of None \<Rightarrow> Inl KeyError | Some v \<Rightarrow> Inr v)"
| "getitem_str _ k = Inl TypeError"

text \<open>
  \<^verbatim>\<open>x[0]\<close>: the first element of a list, the first character of a string
  (\<open>IndexError\<close> when empty); a dict with string keys has no key \<open>0\<close>.
\<close>

fun getitem_0 :: "pyval \<Rightarrow> py_error + pyval" where
  "getitem_0 (PyList []) = Inl IndexError"
| "getitem_0 (PyList (x # xs)) = Inr x"
| "getitem_0 (PyStr []) = Inl IndexError"
| "getitem_0 (PyStr (c # cs)) = Inr (PyStr [c])"
| "getitem_0 (PyDict kvs) = Inl KeyError"
| "getitem_0 _ = Inl TypeError"

text \<open>\<^verbatim>\<open>x.get(key, default)\<close>: a method of dicts only.\<close>

fun dict_get :: "pyval \<Rightarrow> string \<Rightarrow> pyval \<Rightarrow> py_error + pyval" where
  "dict_get (PyDict kvs) k dflt = Inr (case map_of kvs k of None \<Rightarrow> dflt | Some v \<Rightarrow> v)"
| "dict_get _ k dflt = Inl AttributeError"

text \<open>\<^verbatim>\<open>x > 0\<close>: defined on numbers (a bool is an int), \<open>TypeError\<close> otherwise.\<close>

fun gt_zero :: "pyval \<Rightarrow> py_error + bool" where
  "gt_zero (PyBool b) = Inr b"
| "gt_zero (PyInt n) = Inr (n > 0)"
| "gt_zero (PyFloat r) = Inr (r > 0)"
| "gt_zero _ = Inl TypeError"

text \<open>
  \<^verbatim>\<open>for c in x\<close>: the elements of a list, the characters of a string, the keys of a
  dict; other objects are not iterable.
\<close>

fun py_iter :: "pyval \<Rightarrow> py_error + pyval list" where
  "py_iter (PyList xs) = Inr xs"
| "py_iter (PyStr s) = Inr (map (\<lambda>c. PyStr [c]) s)"
| "py_iter (PyDict kvs) = Inr (map (\<lambda>kv. PyStr (fst kv)) kvs)"
| "py_iter _ = Inl TypeError"

subsection \<open>The network\<close>

text \<open>
  The requests the script sends, and the outcome of \<^verbatim>\<open>requests.get\<close>: it raises
  (\<open>Failed\<close>), or it returns a response with a status code and a body, where the body
  is what \<^verbatim>\<open>r.json()\<close> returns, \<open>None\<close> when that call raises. A network is a function
  from requests to outcomes; within one adapter call all requests differ.
\<close>

datatype request =
    ZenodoRecords string
  | AltmetricDoi string
  | HnSearch string
  | HnComments pyval

datatype http_outcome =
    Failed
  | Response int "pyval option"

type_synonym network = "request \<Rightarrow> http_outcome"

definition json_of :: "pyval option \<Rightarrow> py_error + pyval" where
  "json_of body = (case body of None \<Rightarrow> Inl JSONDecodeError | Some data \<Rightarrow> Inr data)"

subsection \<open>Registry-stats adapter: \<^verbatim>\<open>get_zenodo_stats\<close>\<close>

text \<open>
  \<open>zenodo_try\<close> is the body of the \<^verbatim>\<open>try\<close> block; the bare \<^verbatim>\<open>except\<close> turns every
  exception into \<^verbatim>\<open>(None, None)\<close>. The status code is not read.
\<close>

definition zenodo_try :: "network \<Rightarrow> string \<Rightarrow> py_error + (pyval \<times> pyval)" where
  "zenodo_try requests_get doi_str =
     (case requests_get (ZenodoRecords doi_str) of
        Failed \<Rightarrow> Inl RequestError
      | Response status body \<Rightarrow>
          and_then (json_of body) (\<lambda>data.
          and_then (getitem_str data ''hits'') (\<lambda>hits.
          and_then (getitem_str hits ''total'') (\<lambda>total.
          and_then (gt_zero total) (\<lambda>positive.
            if positive then
              and_then (getitem_str hits ''hits'') (\<lambda>hit_list.
              and_then (getitem_0 hit_list) (\<lambda>hit.
              and_then (getitem_str hit ''stats'') (\<lambda>stats.
              and_then (dict_get stats ''unique_views'' (PyInt 0)) (\<lambda>views.
              and_then (dict_get stats ''unique_downloads'' (PyInt 0)) (\<lambda>downloads.
                Inr (views, downloads))))))
            else Inr (PyNone, PyNone))))))"

definition get_zenodo_stats :: "network \<Rightarrow> string \<Rightarrow> pyval \<times> pyval" where
  "get_zenodo_stats requests_get doi_str =
     (case zenodo_try requests_get doi_str of
        Inl e \<Rightarrow> (PyNone, PyNone)
      | Inr result \<Rightarrow> result)"

subsection \<open>Mention-aggregator adapter: \<^verbatim>\<open>get_altmetric_data\<close>\<close>

definition no_score :: pyval where
  "no_score = PyDict [(''score'', PyInt 0)]"

definition altmetric_try :: "network \<Rightarrow> string \<Rightarrow> py_error + pyval" where
  "altmetric_try requests_get doi_str =
     (case requests_get (AltmetricDoi doi_str) of
        Failed \<Rightarrow> Inl RequestError
      | Response status body \<Rightarrow>
          if status = 200 then
            and_then (json_of body) (\<lambda>data.
            and_then (dict_get data ''score'' (PyInt 0)) (\<lambda>score.
            and_then (dict_get data ''cited_by_posts_count'' (PyInt 0)) (\<lambda>posts.
            and_then (dict_get data ''cited_by_tweeters_count'' (PyInt 0)) (\<lambda>tweeters.
            and_then (dict_get data ''details_url'' PyNone) (\<lambda>url.
              Inr (PyDict [(''score'', score),
                           (''cited_by_posts_count'', posts),
                           (''cited_by_tweeters_count'', tweeters),
                           (''details_url'', url)]))))))
          else Inr no_score)"

definition get_altmetric_data :: "network \<Rightarrow> string \<Rightarrow> pyval" where
  "get_altmetric_data requests_get doi_str =
     (case altmetric_try requests_get doi_str of
        Inl e \<Rightarrow> no_score
      | Inr result \<Rightarrow> result)"

subsection \<open>Forum-discussion adapter: \<^verbatim>\<open>get_hacker_news_details\<close>\<close>

text \<open>
  \<^verbatim>\<open>re.sub('<[^<]+?>', '', text)\<close>: at a \<^verbatim>\<open><\<close> the pattern needs one character that is
  not \<^verbatim>\<open><\<close>, then as few further such characters as possible, then \<^verbatim>\<open>>\<close>.
  \<open>tag_close\<close> counts the characters up to and including the first \<^verbatim>\<open>>\<close>, provided no
  \<^verbatim>\<open><\<close> comes before it; \<open>tag_len\<close> is the length of the match after its opening
  \<^verbatim>\<open><\<close>; \<open>strip_from n\<close> drops the \<open>n\<close> characters of a match and goes on after it.
\<close>

fun tag_close :: "string \<Rightarrow> nat option" where
  "tag_close [] = None"
| "tag_close (c # cs) =
     (if c = CHR ''>'' then Some 1
      else if c = CHR ''<'' then None
      else map_option Suc (tag_close cs))"

fun tag_len :: "string \<Rightarrow> nat option" where
  "tag_len [] = None"
| "tag_len (d # ds) = (if d = CHR ''<'' then None else map_option Suc (tag_close ds))"

fun strip_from :: "nat \<Rightarrow> string \<Rightarrow> string" where
  "strip_from n [] = []"
| "strip_from (Suc n) (c # cs) = strip_from n cs"
| "strip_from 0 (c # cs) =
     (if c = CHR ''<'' then
        (case tag_len cs of
           Some n \<Rightarrow> strip_from n cs
         | None \<Rightarrow> c # strip_from 0 cs)
      else c # strip_from 0 cs)"

definition strip_tags :: "string \<Rightarrow> string" where
  "strip_tags s = strip_from 0 s"

text \<open>One comment of the preview: the loop body over \<^verbatim>\<open>c_hits\<close>.\<close>

definition comment_preview :: "pyval \<Rightarrow> py_error + pyval" where
  "comment_preview c =
     and_then (dict_get c ''comment_text'' (PyStr [])) (\<lambda>txt.
       case txt of
         PyStr s \<Rightarrow>
           (let clean_text = strip_tags s;
                clean_text = (if length clean_text > 150 then take 150 clean_text @ ''...''
                              else clean_text)
            in and_then (dict_get c ''author'' PyNone) (\<lambda>author.
                 Inr (PyDict [(''author'', author), (''text'', PyStr clean_text)])))
       | _ \<Rightarrow> Inl TypeError)"

fun comments_loop :: "pyval list \<Rightarrow> py_error + pyval list" where
  "comments_loop [] = Inr []"
| "comments_loop (c # cs) =
     and_then (comment_preview c) (\<lambda>p.
     and_then (comments_loop cs) (\<lambda>ps. Inr (p # ps)))"

text \<open>
  The body of the \<^verbatim>\<open>try\<close> block. \<open>Inr None\<close>: the block ended without \<^verbatim>\<open>return\<close>
  (status not 200, or no hit); \<open>Inr (Some d)\<close>: it returned the bundle \<open>d\<close>.
\<close>

definition hn_try :: "network \<Rightarrow> string \<Rightarrow> py_error + pyval option" where
  "hn_try requests_get search_query =
     (case requests_get (HnSearch search_query) of
        Failed \<Rightarrow> Inl RequestError
      | Response status body \<Rightarrow>
          if status = 200 then
            and_then (json_of body) (\<lambda>data.
            and_then (dict_get data ''hits'' (PyList [])) (\<lambda>hits.
              if py_bool hits then
                and_then (getitem_0 hits) (\<lambda>best_hit.
                and_then (dict_get best_hit ''objectID'' PyNone) (\<lambda>story_id.
                  case requests_get (HnComments story_id) of
                    Failed \<Rightarrow> Inl RequestError
                  | Response c_status c_body \<Rightarrow>
                      and_then
                        (if c_status = 200 then
                           and_then (json_of c_body) (\<lambda>c_data.
                           and_then (dict_get c_data ''hits'' (PyList [])) (\<lambda>c_hits.
                           and_then (py_iter c_hits) comments_loop))
                         else Inr [])
                        (\<lambda>comments_preview.
                      and_then (dict_get best_hit ''points'' (PyInt 0)) (\<lambda>points.
                      and_then (dict_get best_hit ''num_comments'' (PyInt 0)) (\<lambda>num_comments.
                      and_then (dict_get best_hit ''title'' PyNone) (\<lambda>hit_title.
                        Inr (Some (PyDict [(''points'', points),
                                           (''comments_count'', num_comments),
                                           (''objectID'', story_id),
                                           (''title'', hit_title),
                                           (''comments_preview'',
                                              PyList comments_preview)]))))))))
              else Inr None))
          else Inr None)"

definition get_hacker_news_details :: "network \<Rightarrow> string \<Rightarrow> pyval" where
  "get_hacker_news_details requests_get title_str =
     (let search_query = py_strip (split_colon_0 title_str)
      in case hn_try requests_get search_query of
           Inr (Some bundle) \<Rightarrow> bundle
         | _ \<Rightarrow> PyNone)"

subsection \<open>Rough-estimate adapter: \<^verbatim>\<open>get_researchgate_rough\<close>\<close>

text \<open>
  \<^verbatim>\<open>search(query, num_results=2, advanced=True)\<close> returns a generator: it yields
  results one at a time and may raise at any point. A result is represented by its
  \<^verbatim>\<open>description\<close>.
\<close>

datatype 'a gen = Done | Raises | Yield 'a "'a gen"

text \<open>
  \<^verbatim>\<open>re.search(r"(\d+)\s*Reads", desc)\<close>: the leftmost position where a maximal run of
  decimal digits, then any whitespace, then \<^verbatim>\<open>Reads\<close> stand; the group is the run.
\<close>

definition py_isdigit :: "char \<Rightarrow> bool" where
  "py_isdigit c \<longleftrightarrow> c \<in> set ''0123456789''"

definition digit_value :: "char \<Rightarrow> int" where
  "digit_value c = int (length (takeWhile (\<lambda>d. d \<noteq> c) ''0123456789''))"

definition int_of_digits :: "string \<Rightarrow> int" where
  "int_of_digits ds = foldl (\<lambda>acc c. 10 * acc + digit_value c) 0 ds"

definition reads_at :: "string \<Rightarrow> int option" where
  "reads_at s =
     (let ds = takeWhile py_isdigit s;
          after = dropWhile py_isspace (dropWhile py_isdigit s)
      in if ds \<noteq> [] \<and> prefix ''Reads'' after then Some (int_of_digits ds) else None)"

fun reads_search :: "string \<Rightarrow> int option" where
  "reads_search [] = None"
| "reads_search (c # cs) =
     (case reads_at (c # cs) of
        Some n \<Rightarrow> Some n
      | None \<Rightarrow> reads_search cs)"

text \<open>
  The loop over the results: \<open>Inr (Some n)\<close> is the \<^verbatim>\<open>return int(...)\<close>, \<open>Inr None\<close>
  the end of the loop. A description that is not a string makes \<^verbatim>\<open>re.search\<close> raise.
\<close>

fun rg_loop :: "pyval gen \<Rightarrow> py_error + int option" where
  "rg_loop Done = Inr None"
| "rg_loop Raises = Inl LibraryError"
| "rg_loop (Yield desc rest) =
     (case desc of
        PyStr s \<Rightarrow>
          (case reads_search s of
             Some n \<Rightarrow> Inr (Some n)
           | None \<Rightarrow> rg_loop rest)
      | _ \<Rightarrow> Inl TypeError)"

definition get_researchgate_rough :: "(string \<Rightarrow> pyval gen) \<Rightarrow> string \<Rightarrow> pyval" where
  "get_researchgate_rough search title_str =
     (let query = ''site:researchgate.net '' @ title_str
      in case rg_loop (search query) of
           Inr (Some n) \<Rightarrow> PyInt n
         | _ \<Rightarrow> PyStr ''Protected'')"

subsection \<open>Floats: \<^verbatim>\<open>downloads / views * 100\<close>, \<^verbatim>\<open>round(x, 1)\<close> and \<^verbatim>\<open>repr\<close>\<close>

text \<open>
  A finite double is its exact rational value. \<open>to_double\<close> rounds a rational to the
  nearest double, ties to even: 53 significant bits, and a fixed quantum of
  \<open>2 ^ - 1074\<close> below \<open>2 ^ - 1022\<close> (subnormals). A result of \<open>2 ^ 1024\<close> or more is
  an overflow, which the callers test.
\<close>

function ipow :: "rat \<Rightarrow> int \<Rightarrow> rat" where
  "ipow x e =
     (if e \<le> 0 then 1
      else if even e then ipow (x * x) (e div 2)
      else x * ipow (x * x) (e div 2))"
  by pat_completeness auto
termination
  by (relation "measure (\<lambda>(x, e). nat e)") auto

definition bpow :: "int \<Rightarrow> int \<Rightarrow> rat" where
  "bpow b e = (if e \<ge> 0 then ipow (of_int b) e else 1 / ipow (of_int b) (- e))"

function ndigits :: "int \<Rightarrow> int \<Rightarrow> int" where
  "ndigits b n = (if n > 0 \<and> b > 1 then ndigits b (n div b) + 1 else 0)"
  by pat_completeness auto
termination
  by (relation "measure (\<lambda>(b, n). nat n)") (auto intro: int_div_less_self)

text \<open>\<open>floor_log b x\<close>, for \<open>x > 0\<close>: the integer \<open>e\<close> with \<open>b ^ e \<le> x < b ^ (e + 1)\<close>.\<close>

definition floor_log :: "int \<Rightarrow> rat \<Rightarrow> int" where
  "floor_log b x =
     (let (p, q) = quotient_of x;
          e = ndigits b p - ndigits b q
      in if bpow b e \<le> x then e else e - 1)"

definition round_half_even :: "rat \<Rightarrow> int" where
  "round_half_even x =
     (let f = \<lfloor>x\<rfloor>; d = x - of_int f
      in if d < 1 / 2 then f
         else if d > 1 / 2 then f + 1
         else if even f then f else f + 1)"

definition to_double :: "rat \<Rightarrow> rat" where
  "to_double x =
     (if x = 0 then 0
      else
        let a = \<bar>x\<bar>;
            e = max (floor_log 2 a) (- 1022);
            q = bpow 2 (e - 52);
            n = round_half_even (a / q)
        in sgn x * of_int n * q)"

text \<open>
  A float with its sign bit (\<open>True\<close>: negative) and magnitude, so that \<open>-0.0\<close> is a
  value; the infinities; and NaN.
\<close>

datatype pyfloat = Fl bool rat | Inf bool | NaN

text \<open>
  \<^verbatim>\<open>a / b\<close> on two ints: the correctly rounded quotient; \<open>ZeroDivisionError\<close> for a
  zero divisor and \<open>OverflowError\<close> when the rounded quotient does not fit a double.
\<close>

definition py_true_div :: "int \<Rightarrow> int \<Rightarrow> py_error + pyfloat" where
  "py_true_div a b =
     (if b = 0 then Inl ZeroDivisionError
      else
        let m = to_double (of_int \<bar>a\<bar> / of_int \<bar>b\<bar>)
        in if m \<ge> bpow 2 1024 then Inl OverflowError
           else Inr (Fl ((a < 0) \<noteq> (b < 0)) m))"

text \<open>\<^verbatim>\<open>x * c\<close> for a float \<open>x\<close> and a positive finite \<open>c\<close>: an overflow gives an infinity.\<close>

definition py_mul_pos :: "pyfloat \<Rightarrow> rat \<Rightarrow> pyfloat" where
  "py_mul_pos x c =
     (case x of
        Fl s m \<Rightarrow> (let y = to_double (m * c) in if y \<ge> bpow 2 1024 then Inf s else Fl s y)
      | Inf s \<Rightarrow> Inf s
      | NaN \<Rightarrow> NaN)"

text \<open>
  \<^verbatim>\<open>round(x, 1)\<close>: the exact value of \<open>x\<close> rounded to one decimal, ties to even, and
  that decimal read back as a double. Infinities and NaN round to themselves.
\<close>

definition py_round_1 :: "pyfloat \<Rightarrow> pyfloat" where
  "py_round_1 x =
     (case x of
        Fl s m \<Rightarrow> Fl s (to_double (of_int (round_half_even (m * 10)) / 10))
      | Inf s \<Rightarrow> Inf s
      | NaN \<Rightarrow> NaN)"

text \<open>
  \<^verbatim>\<open>repr\<close> of a positive double \<open>m\<close> prints the shortest decimal that reads back as
  \<open>m\<close>, the closest to \<open>m\<close> when several do. \<open>shortest m k n fuel\<close> tries \<open>n\<close>,
  \<open>n + 1\<close>, ... significant digits, where \<open>k = floor_log 10 m\<close>: the candidates with
  \<open>n\<close> digits are the two neighbours of \<open>m\<close> on the grid of step \<open>10 ^ (k - n + 1)\<close>.
  Seventeen digits always read back. The result is the digits as an integer, and the
  decimal exponent of its last digit.
\<close>

fun shortest :: "rat \<Rightarrow> int \<Rightarrow> int \<Rightarrow> nat \<Rightarrow> int \<times> int" where
  "shortest m k n 0 = (round_half_even (m / bpow 10 (k - 16)), k - 16)"
| "shortest m k n (Suc fuel) =
     (let s = bpow 10 (k - n + 1);
          lo = \<lfloor>m / s\<rfloor>;
          hi = lo + 1;
          ok_lo = (to_double (of_int lo * s) = m);
          ok_hi = (to_double (of_int hi * s) = m)
      in if ok_lo \<and> ok_hi then
           (if m - of_int lo * s \<le> of_int hi * s - m then (lo, k - n + 1)
            else (hi, k - n + 1))
         else if ok_lo then (lo, k - n + 1)
         else if ok_hi then (hi, k - n + 1)
         else shortest m k (n + 1) fuel)"

definition digit_char :: "int \<Rightarrow> char" where
  "digit_char d = ''0123456789'' ! nat d"

function digits_rev :: "int \<Rightarrow> string" where
  "digits_rev n =
     (if n < 10 then [digit_char n] else digit_char (n mod 10) # digits_rev (n div 10))"
  by pat_completeness auto
termination
  by (relation "measure nat") (auto intro: int_div_less_self)

definition str_int :: "int \<Rightarrow> string" where
  "str_int n = rev (digits_rev n)"

text \<open>
  The layout of \<^verbatim>\<open>repr\<close>: with \<open>decpt\<close> the position of the decimal point relative to
  the digits, exponent notation when \<open>decpt \<le> -4\<close> or \<open>decpt > 16\<close> (the exponent has
  at least two digits), positional notation otherwise, with \<^verbatim>\<open>.0\<close> after an integer.
\<close>

definition repr_pos :: "rat \<Rightarrow> string" where
  "repr_pos m =
     (let k = floor_log 10 m;
          (c, e) = shortest m k 1 16;
          all_digits = str_int c;
          ds = rev (dropWhile (\<lambda>d. d = CHR ''0'') (rev all_digits));
          decpt = int (length all_digits) + e
      in if decpt \<le> - 4 \<or> decpt > 16 then
           (let x = decpt - 1;
                xs = str_int \<bar>x\<bar>
            in [hd ds] @ (if tl ds = [] then [] else CHR ''.'' # tl ds) @ ''e''
               @ (if x < 0 then ''-'' else ''+'')
               @ (if length xs < 2 then CHR ''0'' # xs else xs))
         else if decpt \<le> 0 then ''0.'' @ replicate (nat (- decpt)) (CHR ''0'') @ ds
         else if decpt \<ge> int (length ds) then
           ds @ replicate (nat decpt - length ds) (CHR ''0'') @ ''.0''
         else take (nat decpt) ds @ ''.'' @ drop (nat decpt) ds)"

definition py_repr :: "pyfloat \<Rightarrow> string" where
  "py_repr x =
     (case x of
        Fl s m \<Rightarrow> (if s then ''-'' else []) @ (if m = 0 then ''0.0'' else repr_pos m)
      | Inf s \<Rightarrow> (if s then ''-'' else []) @ ''inf''
      | NaN \<Rightarrow> ''nan'')"

text \<open>\<^verbatim>\<open>f"{round((downloads / views * 100), 1)}%"\<close> on two ints.\<close>

definition rate_text :: "int \<Rightarrow> int \<Rightarrow> py_error + string" where
  "rate_text downloads views =
     and_then (py_true_div downloads views) (\<lambda>ratio.
       Inr (py_repr (py_round_1 (py_mul_pos ratio 100)) @ ''%''))"

subsection \<open>The main loop\<close>

text \<open>
  \<^verbatim>\<open>isinstance(x, int)\<close> holds of ints and of bools (\<^verbatim>\<open>bool\<close> is a subclass of
  \<^verbatim>\<open>int\<close>, with \<^verbatim>\<open>True == 1\<close>); \<open>as_int\<close> gives the integer then.
\<close>

fun as_int :: "pyval \<Rightarrow> int option" where
  "as_int (PyInt n) = Some n"
| "as_int (PyBool b) = Some (if b then 1 else 0)"
| "as_int _ = None"

definition dl_rate_of :: "pyval \<Rightarrow> pyval \<Rightarrow> py_error + string" where
  "dl_rate_of views downloads =
     (case (as_int views, as_int downloads) of
        (Some v, Some d) \<Rightarrow> if v > 0 then rate_text d v else Inr ''-''
      | _ \<Rightarrow> Inr ''-'')"

record publication =
  doi :: string
  title :: string
  platform :: string

definition DOIs :: "publication list" where
  "DOIs =
     [\<lparr>doi = ''10.31224/5289'',
       title = ''Masami Systems: A Structurally Constrained, Emotionally Persistent AI Companion for Simulating Human-like Connection'',
       platform = ''engrXiv''\<rparr>,
      \<lparr>doi = ''10.31224/5381'',
       title = ''A Japanese Persona Is All You Need: A Case Study on AI's Creative Agency Driving the Translation Asymmetry Trap'',
       platform = ''engrXiv''\<rparr>,
      \<lparr>doi = ''10.5281/zenodo.17428600'',
       title = ''Technical Letter (ZIP)'',
       platform = ''Zenodo''\<rparr>,
      \<lparr>doi = ''10.31224/5745'',
       title = ''Drift of Ungrounded Modality: On Sycophantic Failure in Constitutional AI'',
       platform = ''engrXiv''\<rparr>,
      \<lparr>doi = ''10.5281/zenodo.17575634'',
       title = ''In the Lover's Mirror'',
       platform = ''Zenodo''\<rparr>,
      \<lparr>doi = ''10.5281/zenodo.17759331'',
       title = ''Anatomy of Conceptual Collapse'',
       platform = ''Zenodo''\<rparr>]"

text \<open>
  One entry of \<^verbatim>\<open>records\<close>; the keys \<^verbatim>\<open>"DL Rate"\<close> and \<^verbatim>\<open>"RG Reads"\<close> are written
  with an underscore.
\<close>

record metric_record =
  Title :: string
  Platform :: string
  DOI :: string
  Views :: pyval
  Downloads :: pyval
  DL_Rate :: string
  Altmetric :: pyval
  HackerNews :: pyval
  RG_Reads :: pyval

text \<open>
  What the world answers while one publication is processed: the HTTP outcomes and the
  web search.
\<close>

record world =
  requests_get :: network
  google_search :: "string \<Rightarrow> pyval gen"

text \<open>
  The body of the \<^verbatim>\<open>for\<close> loop. The adapters cannot raise; the rate is computed
  outside any \<^verbatim>\<open>try\<close>, so its exception ends the script.
\<close>

definition collect_item ::
    "world \<Rightarrow> (string \<times> int) list \<Rightarrow> publication \<Rightarrow> py_error + metric_record" where
  "collect_item w engrxiv_cache item =
     (let plat = platform item;
          (views, downloads) =
            (if plat = ''Zenodo'' then get_zenodo_stats (requests_get w) (doi item)
             else if plat = ''engrXiv'' then
               (PyStr ''N/A'',
                PyInt (snd (get_engrxiv_stats_from_cache engrxiv_cache (title item))))
             else (PyNone, PyNone));
          am_data = get_altmetric_data (requests_get w) (doi item);
          hn_data = get_hacker_news_details (requests_get w) (title item);
          rg_reads = get_researchgate_rough (google_search w) (title item)
      in and_then (dl_rate_of views downloads) (\<lambda>dl_rate.
           Inr \<lparr>Title = title item, Platform = plat, DOI = doi item,
                Views = views, Downloads = downloads, DL_Rate = dl_rate,
                Altmetric = am_data, HackerNews = hn_data, RG_Reads = rg_reads\<rparr>))"

text \<open>
  The loop appends to \<^verbatim>\<open>records\<close>. \<open>worlds i\<close> is the world during iteration \<open>i\<close>.
  \<open>Inl e\<close>: the script ended with the uncaught exception \<open>e\<close>.
\<close>

fun main_loop ::
    "(nat \<Rightarrow> world) \<Rightarrow> (string \<times> int) list \<Rightarrow> nat \<Rightarrow> publication list
       \<Rightarrow> metric_record list \<Rightarrow> py_error + metric_record list" where
  "main_loop worlds engrxiv_cache i [] records = Inr records"
| "main_loop worlds engrxiv_cache i (item # rest) records =
     and_then (collect_item (worlds i) engrxiv_cache item) (\<lambda>r.
       main_loop worlds engrxiv_cache (Suc i) rest (records @ [r]))"

definition collect_records ::
    "(nat \<Rightarrow> world) \<Rightarrow> (string \<times> int) list \<Rightarrow> publication list
       \<Rightarrow> py_error + metric_record list" where
  "collect_records worlds engrxiv_cache pubs = main_loop worlds engrxiv_cache 0 pubs []"

subsection \<open>The report table: the loop of \<^verbatim>\<open>generate_markdown_report\<close>\<close>



subsection \<open>Corpus statistics\<close>









subsection \<open>Sentiment: \<^verbatim>\<open>analyze_sentiment\<close>\<close>

text \<open>
  TextBlob is a parameter: \<open>polarity s\<close> is the exact value of the float
  \<^verbatim>\<open>TextBlob(s).sentiment.polarity\<close>, or the exception the library raised. The literal
  \<^verbatim>\<open>0.1\<close> is the double nearest to one tenth. A text that is not a string makes
  \<^verbatim>\<open>TextBlob(text)\<close> raise \<open>TypeError\<close>.
\<close>

definition float_0_1 :: rat where
  "float_0_1 = to_double (1 / 10)"

definition analyze_sentiment :: "(string \<Rightarrow> py_error + rat) \<Rightarrow> pyval \<Rightarrow> string" where
  "analyze_sentiment polarity txt =
     (if \<not> py_bool txt then ''N/A''
      else
        case (case txt of PyStr s \<Rightarrow> polarity s | _ \<Rightarrow> Inl TypeError) of
          Inl e \<Rightarrow> ''N/A''
        | Inr pol \<Rightarrow>
            if pol > float_0_1 then ''Positive''
            else if pol < - float_0_1 then ''Negative''
            else ''Neutral'')"

section \<open>Properties\<close>

subsection \<open>Strings\<close>

lemma py_lower_char_colon: "py_lower_char c = CHR '':'' \<longleftrightarrow> c = CHR '':''"
proof -
  have a: "map_of (zip upper_chars lower_chars) c = Some l \<Longrightarrow> l \<in> set lower_chars" for l
    by (auto dest: map_of_SomeD set_zip_rightD)
  have b: "CHR '':'' \<notin> set lower_chars"
    by (simp add: lower_chars_def)
  have c: "map_of (zip upper_chars lower_chars) (CHR '':'') = None"
    by (simp add: upper_chars_def lower_chars_def)
  show ?thesis
    using a b c by (auto simp: py_lower_char_def split: option.splits)
qed

lemma split_colon_0_lower: "split_colon_0 (py_lower s) = py_lower (split_colon_0 s)"
  by (induction s) (simp_all add: split_colon_0_def py_lower_def py_lower_char_colon)

lemma colon_not_space: "py_isspace c \<Longrightarrow> c \<noteq> CHR '':''"
  by (auto simp: py_isspace_def)

lemma py_rstrip_Nil: "py_rstrip [] = []"
  by (simp add: py_rstrip_def)

lemma py_rstrip_Cons:
  "py_rstrip (c # s) = (if py_rstrip s = [] \<and> py_isspace c then [] else c # py_rstrip s)"
  by (simp add: py_rstrip_def dropWhile_append dropWhile_eq_Nil_conv)

lemma py_rstrip_eq_Nil: "py_rstrip s = [] \<longleftrightarrow> (\<forall>c \<in> set s. py_isspace c)"
  by (simp add: py_rstrip_def dropWhile_eq_Nil_conv)

lemma py_rstrip_idem: "py_rstrip (py_rstrip s) = py_rstrip s"
  by (induction s) (auto simp: py_rstrip_Cons py_rstrip_Nil)

lemma py_lstrip_idem: "py_lstrip (py_lstrip s) = py_lstrip s"
  by (simp add: py_lstrip_def dropWhile_idem)

lemma py_lstrip_rstrip: "py_lstrip (py_rstrip s) = py_rstrip (py_lstrip s)"
proof (induction s)
  case Nil
  then show ?case by (simp add: py_lstrip_def py_rstrip_def)
next
  case (Cons c s)
  show ?case
  proof (cases "py_isspace c")
    case True
    have "py_lstrip (py_rstrip (c # s)) = py_lstrip (py_rstrip s)"
      using True by (simp add: py_rstrip_Cons py_lstrip_def)
    also have "\<dots> = py_rstrip (py_lstrip s)" by (rule Cons.IH)
    also have "\<dots> = py_rstrip (py_lstrip (c # s))"
      using True by (simp add: py_lstrip_def)
    finally show ?thesis .
  next
    case False
    then show ?thesis by (simp add: py_rstrip_Cons py_lstrip_def)
  qed
qed

lemma py_strip_idem: "py_strip (py_strip s) = py_strip s"
  by (simp add: py_strip_def py_lstrip_rstrip py_rstrip_idem py_lstrip_idem)

lemma split_colon_0_lstrip: "split_colon_0 (py_lstrip s) = py_lstrip (split_colon_0 s)"
  by (induction s) (auto simp: split_colon_0_def py_lstrip_def dest: colon_not_space)

lemma split_colon_0_no_colon: "CHR '':'' \<notin> set s \<Longrightarrow> split_colon_0 s = s"
  by (induction s) (auto simp: split_colon_0_def)

lemma split_colon_0_rstrip_colon:
  "CHR '':'' \<in> set s \<Longrightarrow> split_colon_0 (py_rstrip s) = split_colon_0 s"
proof (induction s)
  case Nil
  then show ?case by simp
next
  case (Cons c s)
  show ?case
  proof (cases "c = CHR '':''")
    case True
    then have "\<not> py_isspace c" using colon_not_space by blast
    then show ?thesis using True by (simp add: py_rstrip_Cons split_colon_0_def)
  next
    case False
    then have in_s: "CHR '':'' \<in> set s" using Cons.prems by simp
    then have "\<not> (\<forall>x \<in> set s. py_isspace x)" using colon_not_space by blast
    then have "py_rstrip s \<noteq> []" by (simp add: py_rstrip_eq_Nil)
    then show ?thesis using False Cons.IH [OF in_s]
      by (simp add: py_rstrip_Cons split_colon_0_def)
  qed
qed

lemma set_py_rstrip: "set (py_rstrip s) \<subseteq> set s"
  by (induction s) (auto simp: py_rstrip_Cons py_rstrip_Nil)

lemma strip_split_rstrip: "py_strip (split_colon_0 (py_rstrip s)) = py_strip (split_colon_0 s)"
proof (cases "CHR '':'' \<in> set s")
  case True
  then show ?thesis by (simp add: split_colon_0_rstrip_colon)
next
  case False
  then have "CHR '':'' \<notin> set (py_rstrip s)" using set_py_rstrip by blast
  then have "py_strip (split_colon_0 (py_rstrip s)) = py_strip (py_rstrip s)"
    by (simp add: split_colon_0_no_colon)
  also have "\<dots> = py_rstrip (py_rstrip (py_lstrip s))"
    by (simp add: py_strip_def py_lstrip_rstrip)
  also have "\<dots> = py_strip s"
    by (simp add: py_strip_def py_rstrip_idem)
  also have "\<dots> = py_strip (split_colon_0 s)"
    using False by (simp add: split_colon_0_no_colon)
  finally show ?thesis .
qed

lemma strip_split_strip: "py_strip (split_colon_0 (py_strip s)) = py_strip (split_colon_0 s)"
proof -
  have "py_strip (split_colon_0 (py_strip s)) = py_strip (split_colon_0 (py_lstrip s))"
    using strip_split_rstrip [of "py_lstrip s"] by (simp add: py_strip_def)
  also have "\<dots> = py_strip (py_lstrip (split_colon_0 s))"
    by (simp add: split_colon_0_lstrip)
  also have "\<dots> = py_strip (split_colon_0 s)"
    by (simp add: py_strip_def py_lstrip_idem)
  finally show ?thesis .
qed

text \<open>
  The code lowercases and trims the canonical title before it splits at the colon, and
  trims again; the specification splits first. Both give the same segment.
\<close>

lemma target_base_is_left_segment:
  "py_strip (split_colon_0 (py_strip (py_lower s))) = left_segment s"
  by (simp add: strip_split_strip split_colon_0_lower left_segment_def normalize_title_def
      split_colon_0_def [symmetric])

lemma cached_base_is_left_segment:
  "py_strip (split_colon_0 (py_lower s)) = left_segment s"
  by (simp add: split_colon_0_lower left_segment_def normalize_title_def
      split_colon_0_def [symmetric])

subsection \<open>The two scans are first-match searches\<close>

lemma tier1_scan_find:
  "tier1_scan (normalize_title canonical) cache =
     map_option snd (find (tier1_match canonical) cache)"
  by (induction cache) (auto simp: tier1_match_def normalize_title_def Let_def)

lemma tier2_scan_find:
  "tier2_scan (left_segment canonical) cache =
     map_option snd (find (tier2_match canonical) cache)"
  by (induction cache)
     (auto simp: tier2_match_def Let_def cached_base_is_left_segment)

lemma resolve_unfold:
  "get_engrxiv_stats_from_cache cache canonical =
     (case find (tier1_match canonical) cache of
        Some e \<Rightarrow> (PyNone, snd e)
      | None \<Rightarrow>
          (case find (tier2_match canonical) cache of
             Some e \<Rightarrow> (PyNone, snd e)
           | None \<Rightarrow> (PyNone, 0)))"
proof (cases "cache = []")
  case True
  then show ?thesis by (simp add: get_engrxiv_stats_from_cache_def)
next
  case False
  have t1: "tier1_scan (py_strip (py_lower canonical)) cache =
      map_option snd (find (tier1_match canonical) cache)"
    using tier1_scan_find [of canonical cache] by (simp add: normalize_title_def)
  have t2: "tier2_scan (py_strip (split_colon_0 (py_strip (py_lower canonical)))) cache =
      map_option snd (find (tier2_match canonical) cache)"
    using tier2_scan_find [of canonical cache] by (simp add: target_base_is_left_segment)
  show ?thesis
    using False by (simp add: get_engrxiv_stats_from_cache_def t1 t2 split: option.splits)
qed


lemma find_first:
  "\<forall>e \<in> set xs. \<not> P e \<Longrightarrow> P y \<Longrightarrow> find P (xs @ y # ys) = Some y"
  by (induction xs) simp_all


lemma resolve_tier1:
  assumes "cache = before @ entry # after"
    and "\<forall>e \<in> set before. \<not> tier1_match canonical e"
    and "tier1_match canonical entry"
  shows "get_engrxiv_stats_from_cache cache canonical = (PyNone, snd entry)"
proof -
  have "find (tier1_match canonical) cache = Some entry"
    using assms find_first [of before "tier1_match canonical" entry after] by simp
  then show ?thesis by (simp add: resolve_unfold)
qed



subsection \<open>Claims about the title reconciler\<close>

text \<open>
  C1. Tier 1: when some cache entry is related to the canonical title by the substring
  relation (in either direction, both titles lowercased and trimmed) and its normalized
  cached title is longer than 10 characters, the reconciler returns the count of the
  first such entry in insertion order. In particular the cache
  \<^verbatim>\<open>{"A Full Long Paper Title About Something": 42}\<close> and the canonical title
  \<^verbatim>\<open>"A Full Long Paper Title"\<close> give 42.
\<close>

theorem tier1_returns_first_match:
  "(cache = before @ (cached_title, downloads) # after
      \<and> (\<forall>e \<in> set before. \<not> tier1_match canonical e)
      \<and> tier1_match canonical (cached_title, downloads)
     \<longrightarrow> get_engrxiv_stats_from_cache cache canonical = (PyNone, downloads))
   \<and> get_engrxiv_stats_from_cache
        [(''A Full Long Paper Title About Something'', 42)] ''A Full Long Paper Title''
       = (PyNone, 42)"
proof (intro conjI impI)
  assume "cache = before @ (cached_title, downloads) # after
      \<and> (\<forall>e \<in> set before. \<not> tier1_match canonical e)
      \<and> tier1_match canonical (cached_title, downloads)"
  then show "get_engrxiv_stats_from_cache cache canonical = (PyNone, downloads)"
    using resolve_tier1 [of cache before "(cached_title, downloads)" after canonical]
    by simp
next
  show "get_engrxiv_stats_from_cache
        [(''A Full Long Paper Title About Something'', 42)] ''A Full Long Paper Title''
       = (PyNone, 42)"
    by code_simp
qed

theorem tier1_returns_first_match_witness:
  "tier1_match ''  deep learning SURVEY 2024'' (''Deep Learning Survey 2024 (v2)'', 13)
   \<and> \<not> tier1_match ''  deep learning SURVEY 2024'' (''Survey'', 7)
   \<and> get_engrxiv_stats_from_cache
        [(''Survey'', 7), (''Deep Learning Survey 2024 (v2)'', 13),
         (''Deep Learning Survey 2024'', 99)]
        ''  deep learning SURVEY 2024'' = (PyNone, 13)"
proof -
  have m: "tier1_match ''  deep learning SURVEY 2024'' (''Deep Learning Survey 2024 (v2)'', 13)"
    by code_simp
  have n: "\<not> tier1_match ''  deep learning SURVEY 2024'' (''Survey'', 7)"
    by code_simp
  have "get_engrxiv_stats_from_cache
        [(''Survey'', 7), (''Deep Learning Survey 2024 (v2)'', 13),
         (''Deep Learning Survey 2024'', 99)]
        ''  deep learning SURVEY 2024'' = (PyNone, 13)"
    using m n
      tier1_returns_first_match [of
        "[(''Survey'', 7), (''Deep Learning Survey 2024 (v2)'', 13),
          (''Deep Learning Survey 2024'', 99)]"
        "[(''Survey'', 7)]" "''Deep Learning Survey 2024 (v2)''" 13
        "[(''Deep Learning Survey 2024'', 99)]" "''  deep learning SURVEY 2024''"]
    by simp
  then show ?thesis using m n by simp
qed



text \<open>
  C3 (as the code has it). For the cache \<^verbatim>\<open>{"Short: Sub A": 5}\<close> and the canonical
  title \<^verbatim>\<open>"Short: Sub B"\<close> Tier 1 fails, since neither normalized title contains the
  other. Both Tier 2 segments are \<^verbatim>\<open>"short"\<close>, which has 5 characters; the guard asks
  for more than 5, so Tier 2 fails as well and the reconciler returns 0.
\<close>

theorem short_prefix_example_returns_zero:
  "\<not> tier1_match ''Short: Sub B'' (''Short: Sub A'', 5)
   \<and> left_segment ''Short: Sub A'' = ''short''
   \<and> left_segment ''Short: Sub B'' = ''short''
   \<and> length (left_segment ''Short: Sub B'') = 5
   \<and> \<not> tier2_match ''Short: Sub B'' (''Short: Sub A'', 5)
   \<and> get_engrxiv_stats_from_cache [(''Short: Sub A'', 5)] ''Short: Sub B'' = (PyNone, 0)"
  by code_simp

text \<open>
  The claim as the specification words it, that this example returns 5, is false.
\<close>

theorem short_prefix_example_not_five:
  "snd (get_engrxiv_stats_from_cache [(''Short: Sub A'', 5)] ''Short: Sub B'') \<noteq> 5"
  by code_simp




subsection \<open>The adapters\<close>

lemmas adapter_defs = and_then_def json_of_def

lemma zenodo_absorbs:
  "zenodo_try net d = Inl e \<Longrightarrow> get_zenodo_stats net d = (PyNone, PyNone)"
  by (simp add: get_zenodo_stats_def)

lemma zenodo_failed:
  "net (ZenodoRecords d) = Failed \<Longrightarrow> get_zenodo_stats net d = (PyNone, PyNone)"
  by (simp add: get_zenodo_stats_def zenodo_try_def)

lemma zenodo_malformed:
  "net (ZenodoRecords d) = Response s None \<Longrightarrow> get_zenodo_stats net d = (PyNone, PyNone)"
  by (simp add: get_zenodo_stats_def zenodo_try_def adapter_defs)

lemma zenodo_status_ignored:
  "net (ZenodoRecords d) = Response s b \<Longrightarrow> net' (ZenodoRecords d) = Response s' b
   \<Longrightarrow> get_zenodo_stats net d = get_zenodo_stats net' d"
  by (simp add: get_zenodo_stats_def zenodo_try_def)

lemma zenodo_no_hits_field:
  "net (ZenodoRecords d) = Response s (Some (PyDict kvs)) \<Longrightarrow> map_of kvs ''hits'' = None
   \<Longrightarrow> get_zenodo_stats net d = (PyNone, PyNone)"
  by (simp add: get_zenodo_stats_def zenodo_try_def adapter_defs)

lemma zenodo_no_stats_field:
  "net (ZenodoRecords d) = Response s (Some (PyDict kvs))
   \<Longrightarrow> map_of kvs ''hits'' = Some (PyDict h)
   \<Longrightarrow> map_of h ''total'' = Some (PyInt n)
   \<Longrightarrow> map_of h ''hits'' = Some (PyList (PyDict hit # others))
   \<Longrightarrow> map_of hit ''stats'' = None
   \<Longrightarrow> get_zenodo_stats net d = (PyNone, PyNone)"
  by (simp add: get_zenodo_stats_def zenodo_try_def adapter_defs)

lemma zenodo_leaf_defaults:
  "net (ZenodoRecords d) = Response s (Some (PyDict kvs))
   \<Longrightarrow> map_of kvs ''hits'' = Some (PyDict h)
   \<Longrightarrow> map_of h ''total'' = Some (PyInt n) \<Longrightarrow> n > 0
   \<Longrightarrow> map_of h ''hits'' = Some (PyList (PyDict hit # others))
   \<Longrightarrow> map_of hit ''stats'' = Some (PyDict stats)
   \<Longrightarrow> get_zenodo_stats net d =
        (case map_of stats ''unique_views'' of None \<Rightarrow> PyInt 0 | Some v \<Rightarrow> v,
         case map_of stats ''unique_downloads'' of None \<Rightarrow> PyInt 0 | Some v \<Rightarrow> v)"
  by (simp add: get_zenodo_stats_def zenodo_try_def adapter_defs)

lemma altmetric_absorbs:
  "altmetric_try net d = Inl e \<Longrightarrow> get_altmetric_data net d = no_score"
  by (simp add: get_altmetric_data_def)

lemma altmetric_failed:
  "net (AltmetricDoi d) = Failed \<Longrightarrow> get_altmetric_data net d = no_score"
  by (simp add: get_altmetric_data_def altmetric_try_def)

lemma altmetric_malformed:
  "net (AltmetricDoi d) = Response s None \<Longrightarrow> get_altmetric_data net d = no_score"
  by (simp add: get_altmetric_data_def altmetric_try_def adapter_defs)

lemma altmetric_status:
  "net (AltmetricDoi d) = Response s b \<Longrightarrow> s \<noteq> 200 \<Longrightarrow> get_altmetric_data net d = no_score"
  by (simp add: get_altmetric_data_def altmetric_try_def)

lemma altmetric_leaf_defaults:
  "net (AltmetricDoi d) = Response 200 (Some (PyDict kvs)) \<Longrightarrow>
   get_altmetric_data net d =
     PyDict [(''score'', case map_of kvs ''score'' of None \<Rightarrow> PyInt 0 | Some v \<Rightarrow> v),
             (''cited_by_posts_count'',
                case map_of kvs ''cited_by_posts_count'' of None \<Rightarrow> PyInt 0 | Some v \<Rightarrow> v),
             (''cited_by_tweeters_count'',
                case map_of kvs ''cited_by_tweeters_count'' of None \<Rightarrow> PyInt 0 | Some v \<Rightarrow> v),
             (''details_url'',
                case map_of kvs ''details_url'' of None \<Rightarrow> PyNone | Some v \<Rightarrow> v)]"
  by (simp add: get_altmetric_data_def altmetric_try_def adapter_defs)

lemma hn_absorbs:
  "hn_try net (py_strip (split_colon_0 t)) = Inl e \<Longrightarrow> get_hacker_news_details net t = PyNone"
  by (simp add: get_hacker_news_details_def)

lemma hn_failed:
  "net (HnSearch (py_strip (split_colon_0 t))) = Failed
   \<Longrightarrow> get_hacker_news_details net t = PyNone"
  by (simp add: get_hacker_news_details_def hn_try_def)

lemma hn_status:
  "net (HnSearch (py_strip (split_colon_0 t))) = Response s b \<Longrightarrow> s \<noteq> 200
   \<Longrightarrow> get_hacker_news_details net t = PyNone"
  by (simp add: get_hacker_news_details_def hn_try_def)

lemma hn_malformed:
  "net (HnSearch (py_strip (split_colon_0 t))) = Response s None
   \<Longrightarrow> get_hacker_news_details net t = PyNone"
  by (simp add: get_hacker_news_details_def hn_try_def adapter_defs)

lemma hn_no_hit:
  "net (HnSearch (py_strip (split_colon_0 t))) = Response s (Some (PyDict kvs))
   \<Longrightarrow> map_of kvs ''hits'' = None \<or> map_of kvs ''hits'' = Some (PyList [])
   \<Longrightarrow> get_hacker_news_details net t = PyNone"
  by (auto simp add: get_hacker_news_details_def hn_try_def adapter_defs)

lemma hn_comments_failed:
  "net (HnSearch (py_strip (split_colon_0 t))) = Response 200 (Some (PyDict kvs))
   \<Longrightarrow> map_of kvs ''hits'' = Some (PyList (PyDict hit # others))
   \<Longrightarrow> net (HnComments (case map_of hit ''objectID'' of None \<Rightarrow> PyNone | Some v \<Rightarrow> v)) = Failed
   \<Longrightarrow> get_hacker_news_details net t = PyNone"
  by (simp add: get_hacker_news_details_def hn_try_def adapter_defs)

lemma hn_comments_malformed:
  "net (HnSearch (py_strip (split_colon_0 t))) = Response 200 (Some (PyDict kvs))
   \<Longrightarrow> map_of kvs ''hits'' = Some (PyList (PyDict hit # others))
   \<Longrightarrow> net (HnComments (case map_of hit ''objectID'' of None \<Rightarrow> PyNone | Some v \<Rightarrow> v))
        = Response 200 None
   \<Longrightarrow> get_hacker_news_details net t = PyNone"
  by (simp add: get_hacker_news_details_def hn_try_def adapter_defs)

lemma hn_comment_text_not_str:
  "net (HnSearch (py_strip (split_colon_0 t))) = Response 200 (Some (PyDict kvs))
   \<Longrightarrow> map_of kvs ''hits'' = Some (PyList (PyDict hit # others))
   \<Longrightarrow> net (HnComments (case map_of hit ''objectID'' of None \<Rightarrow> PyNone | Some v \<Rightarrow> v))
        = Response 200 (Some (PyDict [(''hits'', PyList (PyDict [(''comment_text'', PyNone)] # cs))]))
   \<Longrightarrow> get_hacker_news_details net t = PyNone"
  by (simp add: get_hacker_news_details_def hn_try_def adapter_defs comment_preview_def)

lemma hn_comments_status:
  "net (HnSearch (py_strip (split_colon_0 t))) = Response 200 (Some (PyDict kvs))
   \<Longrightarrow> map_of kvs ''hits'' = Some (PyList (PyDict hit # others))
   \<Longrightarrow> net (HnComments (case map_of hit ''objectID'' of None \<Rightarrow> PyNone | Some v \<Rightarrow> v))
        = Response s b
   \<Longrightarrow> s \<noteq> 200
   \<Longrightarrow> get_hacker_news_details net t =
        PyDict [(''points'', case map_of hit ''points'' of None \<Rightarrow> PyInt 0 | Some v \<Rightarrow> v),
                (''comments_count'',
                   case map_of hit ''num_comments'' of None \<Rightarrow> PyInt 0 | Some v \<Rightarrow> v),
                (''objectID'', case map_of hit ''objectID'' of None \<Rightarrow> PyNone | Some v \<Rightarrow> v),
                (''title'', case map_of hit ''title'' of None \<Rightarrow> PyNone | Some v \<Rightarrow> v),
                (''comments_preview'', PyList [])]"
  by (simp add: get_hacker_news_details_def hn_try_def adapter_defs)

lemma rg_absorbs:
  "rg_loop (srch (''site:researchgate.net '' @ t)) = Inl e
   \<Longrightarrow> get_researchgate_rough srch t = PyStr ''Protected''"
  by (simp add: get_researchgate_rough_def)

lemma rg_failed:
  "srch (''site:researchgate.net '' @ t) = Raises
   \<Longrightarrow> get_researchgate_rough srch t = PyStr ''Protected''"
  by (simp add: get_researchgate_rough_def)

lemma rg_no_pattern:
  "rg_loop (srch (''site:researchgate.net '' @ t)) = Inr None
   \<Longrightarrow> get_researchgate_rough srch t = PyStr ''Protected''"
  by (simp add: get_researchgate_rough_def)

lemma rg_bad_description:
  "srch (''site:researchgate.net '' @ t) = Yield PyNone rest
   \<Longrightarrow> get_researchgate_rough srch t = PyStr ''Protected''"
  by (simp add: get_researchgate_rough_def)

text \<open>
  C5 (as the code has it). Every adapter is total and no exception leaves it: whatever
  is raised inside the \<^verbatim>\<open>try\<close> block gives the adapter's no-data result
  (\<^verbatim>\<open>(None, None)\<close>, \<^verbatim>\<open>{"score": 0}\<close>, \<^verbatim>\<open>None\<close>, \<^verbatim>\<open>"Protected"\<close>). That covers every
  network error, every payload that does not parse, and a missing container field
  (\<^verbatim>\<open>hits\<close>, \<^verbatim>\<open>stats\<close>). A status other than 200 gives the no-data result in the
  mention-aggregator and in the forum adapter's search; the registry adapter does not
  read the status. A missing leaf field read with \<^verbatim>\<open>.get\<close> is replaced by its default
  (0, or \<^verbatim>\<open>None\<close> for the link) inside an otherwise normal result.
\<close>

theorem adapters_absorb_failures:
  "(zenodo_try net d = Inl e \<longrightarrow> get_zenodo_stats net d = (PyNone, PyNone))
   \<and> (altmetric_try net d = Inl e \<longrightarrow> get_altmetric_data net d = no_score)
   \<and> (hn_try net (py_strip (split_colon_0 t)) = Inl e
        \<longrightarrow> get_hacker_news_details net t = PyNone)
   \<and> (rg_loop (srch (''site:researchgate.net '' @ t)) = Inl e
        \<longrightarrow> get_researchgate_rough srch t = PyStr ''Protected'')
   \<and> (net (ZenodoRecords d) = Failed \<longrightarrow> get_zenodo_stats net d = (PyNone, PyNone))
   \<and> (net (AltmetricDoi d) = Failed \<longrightarrow> get_altmetric_data net d = no_score)
   \<and> (net (HnSearch (py_strip (split_colon_0 t))) = Failed
        \<longrightarrow> get_hacker_news_details net t = PyNone)
   \<and> (srch (''site:researchgate.net '' @ t) = Raises
        \<longrightarrow> get_researchgate_rough srch t = PyStr ''Protected'')
   \<and> (net (ZenodoRecords d) = Response s None
        \<longrightarrow> get_zenodo_stats net d = (PyNone, PyNone))
   \<and> (net (AltmetricDoi d) = Response s None \<longrightarrow> get_altmetric_data net d = no_score)
   \<and> (net (HnSearch (py_strip (split_colon_0 t))) = Response s None
        \<longrightarrow> get_hacker_news_details net t = PyNone)
   \<and> (srch (''site:researchgate.net '' @ t) = Yield PyNone rest
        \<longrightarrow> get_researchgate_rough srch t = PyStr ''Protected'')
   \<and> (net (AltmetricDoi d) = Response s b \<and> s \<noteq> 200
        \<longrightarrow> get_altmetric_data net d = no_score)
   \<and> (net (HnSearch (py_strip (split_colon_0 t))) = Response s b \<and> s \<noteq> 200
        \<longrightarrow> get_hacker_news_details net t = PyNone)
   \<and> (net (ZenodoRecords d) = Response s b \<and> net' (ZenodoRecords d) = Response s' b
        \<longrightarrow> get_zenodo_stats net d = get_zenodo_stats net' d)
   \<and> (net (ZenodoRecords d) = Response s (Some (PyDict kvs)) \<and> map_of kvs ''hits'' = None
        \<longrightarrow> get_zenodo_stats net d = (PyNone, PyNone))
   \<and> (net (ZenodoRecords d) = Response s (Some (PyDict kvs))
        \<and> map_of kvs ''hits'' = Some (PyDict h)
        \<and> map_of h ''total'' = Some (PyInt n)
        \<and> map_of h ''hits'' = Some (PyList (PyDict hit # others))
        \<and> map_of hit ''stats'' = None
        \<longrightarrow> get_zenodo_stats net d = (PyNone, PyNone))
   \<and> (net (ZenodoRecords d) = Response s (Some (PyDict kvs))
        \<and> map_of kvs ''hits'' = Some (PyDict h)
        \<and> map_of h ''total'' = Some (PyInt n) \<and> n > 0
        \<and> map_of h ''hits'' = Some (PyList (PyDict hit # others))
        \<and> map_of hit ''stats'' = Some (PyDict stats)
        \<longrightarrow> get_zenodo_stats net d =
            (case map_of stats ''unique_views'' of None \<Rightarrow> PyInt 0 | Some v \<Rightarrow> v,
             case map_of stats ''unique_downloads'' of None \<Rightarrow> PyInt 0 | Some v \<Rightarrow> v))
   \<and> (net (AltmetricDoi d) = Response 200 (Some (PyDict kvs))
        \<longrightarrow> get_altmetric_data net d =
            PyDict [(''score'', case map_of kvs ''score'' of None \<Rightarrow> PyInt 0 | Some v \<Rightarrow> v),
                    (''cited_by_posts_count'',
                       case map_of kvs ''cited_by_posts_count'' of
                         None \<Rightarrow> PyInt 0 | Some v \<Rightarrow> v),
                    (''cited_by_tweeters_count'',
                       case map_of kvs ''cited_by_tweeters_count'' of
                         None \<Rightarrow> PyInt 0 | Some v \<Rightarrow> v),
                    (''details_url'',
                       case map_of kvs ''details_url'' of None \<Rightarrow> PyNone | Some v \<Rightarrow> v)])"
proof (intro conjI impI, goal_cases)
  case 1 then show ?case by (rule zenodo_absorbs)
next
  case 2 then show ?case by (rule altmetric_absorbs)
next
  case 3 then show ?case by (rule hn_absorbs)
next
  case 4 then show ?case by (rule rg_absorbs)
next
  case 5 then show ?case by (rule zenodo_failed)
next
  case 6 then show ?case by (rule altmetric_failed)
next
  case 7 then show ?case by (rule hn_failed)
next
  case 8 then show ?case by (rule rg_failed)
next
  case 9 then show ?case by (rule zenodo_malformed)
next
  case 10 then show ?case by (rule altmetric_malformed)
next
  case 11 then show ?case by (rule hn_malformed)
next
  case 12 then show ?case by (rule rg_bad_description)
next
  case 13 then show ?case using altmetric_status [of net d s b] by blast
next
  case 14 then show ?case using hn_status [of net t s b] by blast
next
  case 15 then show ?case using zenodo_status_ignored [of net d s b net' s'] by blast
next
  case 16 then show ?case using zenodo_no_hits_field [of net d s kvs] by blast
next
  case 17 then show ?case
    using zenodo_no_stats_field [of net d s kvs h n hit others] by blast
next
  case 18 then show ?case
    using zenodo_leaf_defaults [of net d s kvs h n hit others stats] by blast
next
  case 19 then show ?case by (rule altmetric_leaf_defaults)
qed



theorem adapters_absorb_failures_witness:
  "get_zenodo_stats (\<lambda>r. Failed) ''10.5281/zenodo.17428600'' = (PyNone, PyNone)
   \<and> get_altmetric_data (\<lambda>r. Failed) ''10.5281/zenodo.17428600'' = no_score
   \<and> get_hacker_news_details (\<lambda>r. Failed) ''In the Lover's Mirror'' = PyNone
   \<and> get_researchgate_rough (\<lambda>q. Raises) ''In the Lover's Mirror'' = PyStr ''Protected''
   \<and> get_zenodo_stats (\<lambda>r. Response 503 None) ''10.5281/zenodo.17428600'' = (PyNone, PyNone)
   \<and> get_altmetric_data (\<lambda>r. Response 503 None) ''10.5281/zenodo.17428600'' = no_score
   \<and> get_hacker_news_details (\<lambda>r. Response 503 None) ''In the Lover's Mirror'' = PyNone
   \<and> get_researchgate_rough (\<lambda>q. Yield PyNone Done) ''In the Lover's Mirror''
       = PyStr ''Protected''
   \<and> get_zenodo_stats (\<lambda>r. Response 200 (Some (PyDict [(''status'', PyInt 400)])))
        ''10.5281/zenodo.17428600'' = (PyNone, PyNone)
   \<and> get_zenodo_stats
        (\<lambda>r. Response 200 (Some (PyDict [(''hits'', PyDict [(''total'', PyInt 1),
           (''hits'', PyList [PyDict [(''id'', PyInt 17428600)]])])])))
        ''10.5281/zenodo.17428600'' = (PyNone, PyNone)
   \<and> get_zenodo_stats
        (\<lambda>r. Response 200 (Some (PyDict [(''hits'', PyDict [(''total'', PyInt 1),
           (''hits'', PyList [PyDict [(''stats'',
              PyDict [(''unique_downloads'', PyInt 7)])]])])])))
        ''10.5281/zenodo.17428600'' = (PyInt 0, PyInt 7)
   \<and> get_altmetric_data (\<lambda>r. Response 200 (Some (PyDict [(''score'', PyInt 3)])))
        ''10.5281/zenodo.17428600''
       = PyDict [(''score'', PyInt 3), (''cited_by_posts_count'', PyInt 0),
                 (''cited_by_tweeters_count'', PyInt 0), (''details_url'', PyNone)]"
proof -
  let ?d = "''10.5281/zenodo.17428600''"
  let ?t = "''In the Lover's Mirror''"
  have failed:
    "get_zenodo_stats (\<lambda>r. Failed) ?d = (PyNone, PyNone)
     \<and> get_altmetric_data (\<lambda>r. Failed) ?d = no_score
     \<and> get_hacker_news_details (\<lambda>r. Failed) ?t = PyNone
     \<and> get_researchgate_rough (\<lambda>q. Raises) ?t = PyStr ''Protected''"
    using adapters_absorb_failures
      [where net = "\<lambda>r. Failed" and srch = "\<lambda>q. Raises" and d = ?d and t = ?t]
    by simp
  have unparsed:
    "get_zenodo_stats (\<lambda>r. Response 503 None) ?d = (PyNone, PyNone)
     \<and> get_altmetric_data (\<lambda>r. Response 503 None) ?d = no_score
     \<and> get_hacker_news_details (\<lambda>r. Response 503 None) ?t = PyNone
     \<and> get_researchgate_rough (\<lambda>q. Yield PyNone Done) ?t = PyStr ''Protected''"
    using adapters_absorb_failures
      [where net = "\<lambda>r. Response 503 None" and srch = "\<lambda>q. Yield PyNone Done"
         and d = ?d and t = ?t and s = 503 and b = None and rest = Done]
    by simp
  have no_hits:
    "get_zenodo_stats (\<lambda>r. Response 200 (Some (PyDict [(''status'', PyInt 400)]))) ?d
       = (PyNone, PyNone)"
    using adapters_absorb_failures
      [where net = "\<lambda>r. Response 200 (Some (PyDict [(''status'', PyInt 400)]))"
         and d = ?d and s = 200 and kvs = "[(''status'', PyInt 400)]"]
    by simp
  have no_stats:
    "get_zenodo_stats
        (\<lambda>r. Response 200 (Some (PyDict [(''hits'', PyDict [(''total'', PyInt 1),
           (''hits'', PyList [PyDict [(''id'', PyInt 17428600)]])])]))) ?d
       = (PyNone, PyNone)"
    using adapters_absorb_failures
      [where net = "\<lambda>r. Response 200 (Some (PyDict [(''hits'', PyDict [(''total'', PyInt 1),
           (''hits'', PyList [PyDict [(''id'', PyInt 17428600)]])])]))"
         and d = ?d and s = 200
         and kvs = "[(''hits'', PyDict [(''total'', PyInt 1),
           (''hits'', PyList [PyDict [(''id'', PyInt 17428600)]])])]"
         and h = "[(''total'', PyInt 1), (''hits'', PyList [PyDict [(''id'', PyInt 17428600)]])]"
         and n = 1 and hit = "[(''id'', PyInt 17428600)]" and others = "[]"]
    by simp
  have leaf:
    "get_zenodo_stats
        (\<lambda>r. Response 200 (Some (PyDict [(''hits'', PyDict [(''total'', PyInt 1),
           (''hits'', PyList [PyDict [(''stats'',
              PyDict [(''unique_downloads'', PyInt 7)])]])])]))) ?d
       = (PyInt 0, PyInt 7)"
    using adapters_absorb_failures
      [where net = "\<lambda>r. Response 200 (Some (PyDict [(''hits'', PyDict [(''total'', PyInt 1),
           (''hits'', PyList [PyDict [(''stats'',
              PyDict [(''unique_downloads'', PyInt 7)])]])])]))"
         and d = ?d and s = 200
         and kvs = "[(''hits'', PyDict [(''total'', PyInt 1),
           (''hits'', PyList [PyDict [(''stats'', PyDict [(''unique_downloads'', PyInt 7)])]])])]"
         and h = "[(''total'', PyInt 1),
           (''hits'', PyList [PyDict [(''stats'', PyDict [(''unique_downloads'', PyInt 7)])]])]"
         and n = 1 and hit = "[(''stats'', PyDict [(''unique_downloads'', PyInt 7)])]"
         and others = "[]" and stats = "[(''unique_downloads'', PyInt 7)]"]
    by simp
  have score:
    "get_altmetric_data (\<lambda>r. Response 200 (Some (PyDict [(''score'', PyInt 3)]))) ?d
       = PyDict [(''score'', PyInt 3), (''cited_by_posts_count'', PyInt 0),
                 (''cited_by_tweeters_count'', PyInt 0), (''details_url'', PyNone)]"
    using adapters_absorb_failures
      [where net = "\<lambda>r. Response 200 (Some (PyDict [(''score'', PyInt 3)]))"
         and d = ?d and kvs = "[(''score'', PyInt 3)]"]
    by simp
  show ?thesis
    using failed unparsed no_hits no_stats leaf score by blast
qed

text \<open>
  The claim as the specification words it fails: a registry payload whose \<^verbatim>\<open>stats\<close>
  lack \<^verbatim>\<open>unique_views\<close> gives \<^verbatim>\<open>(0, 7)\<close>, not \<^verbatim>\<open>(None, None)\<close>; and a registry response
  with status 500 and a well-formed body gives that body's counts.
\<close>

theorem registry_missing_field_is_not_no_data:
  "get_zenodo_stats
     (\<lambda>r. Response 200 (Some (PyDict [(''hits'', PyDict [(''total'', PyInt 1),
        (''hits'', PyList [PyDict [(''stats'',
           PyDict [(''unique_downloads'', PyInt 7)])]])])])))
     ''10.5281/zenodo.17428600'' \<noteq> (PyNone, PyNone)
   \<and> get_zenodo_stats
     (\<lambda>r. Response 500 (Some (PyDict [(''hits'', PyDict [(''total'', PyInt 1),
        (''hits'', PyList [PyDict [(''stats'',
           PyDict [(''unique_views'', PyInt 40), (''unique_downloads'', PyInt 7)])]])])])))
     ''10.5281/zenodo.17428600'' \<noteq> (PyNone, PyNone)"
  by (simp add: get_zenodo_stats_def zenodo_try_def adapter_defs)

text \<open>
  C10 (as the code has it). The forum adapter returns \<^verbatim>\<open>None\<close> when the search yields
  no hit, and also when the search request fails (network failure, timeout), when its
  status is not 200, when its payload does not parse, and when anything raises later
  in the fetch: also while the comments of a hit already found are fetched (the
  request fails, or its payload does not parse). So \<^verbatim>\<open>None\<close> does not tell "no
  discussion" from "the service failed". A status other than 200 on the comments
  request alone is not such a case: the bundle of the hit is returned, with an empty
  comment preview.
\<close>

theorem forum_none_is_ambiguous:
  "(net (HnSearch (py_strip (split_colon_0 t))) = Response s (Some (PyDict kvs))
      \<and> (map_of kvs ''hits'' = None \<or> map_of kvs ''hits'' = Some (PyList []))
     \<longrightarrow> get_hacker_news_details net t = PyNone)
   \<and> (net (HnSearch (py_strip (split_colon_0 t))) = Failed
     \<longrightarrow> get_hacker_news_details net t = PyNone)
   \<and> (net (HnSearch (py_strip (split_colon_0 t))) = Response s b \<and> s \<noteq> 200
     \<longrightarrow> get_hacker_news_details net t = PyNone)
   \<and> (net (HnSearch (py_strip (split_colon_0 t))) = Response s None
     \<longrightarrow> get_hacker_news_details net t = PyNone)
   \<and> (hn_try net (py_strip (split_colon_0 t)) = Inl e
     \<longrightarrow> get_hacker_news_details net t = PyNone)
   \<and> (net (HnSearch (py_strip (split_colon_0 t))) = Response 200 (Some (PyDict kvs))
      \<and> map_of kvs ''hits'' = Some (PyList (PyDict hit # others))
      \<and> net (HnComments (case map_of hit ''objectID'' of None \<Rightarrow> PyNone | Some v \<Rightarrow> v))
          = Failed
     \<longrightarrow> get_hacker_news_details net t = PyNone)
   \<and> (net (HnSearch (py_strip (split_colon_0 t))) = Response 200 (Some (PyDict kvs))
      \<and> map_of kvs ''hits'' = Some (PyList (PyDict hit # others))
      \<and> net (HnComments (case map_of hit ''objectID'' of None \<Rightarrow> PyNone | Some v \<Rightarrow> v))
          = Response 200 None
     \<longrightarrow> get_hacker_news_details net t = PyNone)
   \<and> (net (HnSearch (py_strip (split_colon_0 t))) = Response 200 (Some (PyDict kvs))
      \<and> map_of kvs ''hits'' = Some (PyList (PyDict hit # others))
      \<and> net (HnComments (case map_of hit ''objectID'' of None \<Rightarrow> PyNone | Some v \<Rightarrow> v))
          = Response s b
      \<and> s \<noteq> 200
     \<longrightarrow> get_hacker_news_details net t =
         PyDict [(''points'', case map_of hit ''points'' of None \<Rightarrow> PyInt 0 | Some v \<Rightarrow> v),
                 (''comments_count'',
                    case map_of hit ''num_comments'' of None \<Rightarrow> PyInt 0 | Some v \<Rightarrow> v),
                 (''objectID'', case map_of hit ''objectID'' of None \<Rightarrow> PyNone | Some v \<Rightarrow> v),
                 (''title'', case map_of hit ''title'' of None \<Rightarrow> PyNone | Some v \<Rightarrow> v),
                 (''comments_preview'', PyList [])])
   \<and> get_hacker_news_details (\<lambda>r. Failed) t
       = get_hacker_news_details (\<lambda>r. Response 200 (Some (PyDict [(''hits'', PyList [])]))) t"
proof (intro conjI impI, goal_cases)
  case 1 then show ?case using hn_no_hit [of net t s kvs] by blast
next
  case 2 then show ?case by (rule hn_failed)
next
  case 3 then show ?case using hn_status [of net t s b] by blast
next
  case 4 then show ?case by (rule hn_malformed)
next
  case 5 then show ?case by (rule hn_absorbs)
next
  case 6 then show ?case using hn_comments_failed [of net t kvs hit others] by blast
next
  case 7 then show ?case using hn_comments_malformed [of net t kvs hit others] by blast
next
  case 8 then show ?case using hn_comments_status [of net t kvs hit others s b] by blast
next
  case 9
  have "get_hacker_news_details (\<lambda>r. Failed) t = PyNone"
    by (rule hn_failed) simp
  moreover have
    "get_hacker_news_details (\<lambda>r. Response 200 (Some (PyDict [(''hits'', PyList [])]))) t
       = PyNone"
    by (rule hn_no_hit [where s = 200 and kvs = "[(''hits'', PyList [])]"]) simp_all
  ultimately show ?case by simp
qed

theorem forum_none_is_ambiguous_witness:
  "get_hacker_news_details (\<lambda>r. Failed) ''Masami Systems: A Companion'' = PyNone
   \<and> get_hacker_news_details (\<lambda>r. Response 429 (Some (PyDict [])))
        ''Masami Systems: A Companion'' = PyNone
   \<and> get_hacker_news_details (\<lambda>r. Response 200 (Some (PyDict [(''hits'', PyList [])])))
        ''Masami Systems: A Companion'' = PyNone
   \<and> get_hacker_news_details
        (\<lambda>r. case r of
           HnSearch q \<Rightarrow> Response 200 (Some (PyDict [(''hits'',
             PyList [PyDict [(''objectID'', PyStr ''4242''), (''points'', PyInt 5)]])]))
         | _ \<Rightarrow> Failed)
        ''Masami Systems: A Companion'' = PyNone
   \<and> get_hacker_news_details
        (\<lambda>r. case r of
           HnSearch q \<Rightarrow> Response 200 (Some (PyDict [(''hits'',
             PyList [PyDict [(''objectID'', PyStr ''4242''), (''points'', PyInt 5)]])]))
         | _ \<Rightarrow> Response 200 None)
        ''Masami Systems: A Companion'' = PyNone
   \<and> get_hacker_news_details
        (\<lambda>r. case r of
           HnSearch q \<Rightarrow> Response 200 (Some (PyDict [(''hits'',
             PyList [PyDict [(''objectID'', PyStr ''4242''), (''points'', PyInt 5)]])]))
         | _ \<Rightarrow> Response 503 None)
        ''Masami Systems: A Companion''
       = PyDict [(''points'', PyInt 5), (''comments_count'', PyInt 0),
                 (''objectID'', PyStr ''4242''), (''title'', PyNone),
                 (''comments_preview'', PyList [])]"
proof -
  let ?t = "''Masami Systems: A Companion''"
  let ?hit = "[(''objectID'', PyStr ''4242''), (''points'', PyInt 5)]"
  let ?kvs = "[(''hits'', PyList [PyDict ?hit])]"
  have a: "get_hacker_news_details (\<lambda>r. Failed) ?t = PyNone"
    using forum_none_is_ambiguous [where net = "\<lambda>r. Failed" and t = ?t] by simp
  have b: "get_hacker_news_details (\<lambda>r. Response 429 (Some (PyDict []))) ?t = PyNone"
    using forum_none_is_ambiguous
      [where net = "\<lambda>r. Response 429 (Some (PyDict []))" and t = ?t and s = 429
         and b = "Some (PyDict [])"]
    by simp
  have c: "get_hacker_news_details
      (\<lambda>r. Response 200 (Some (PyDict [(''hits'', PyList [])]))) ?t = PyNone"
    using forum_none_is_ambiguous
      [where net = "\<lambda>r. Response 200 (Some (PyDict [(''hits'', PyList [])]))" and t = ?t
         and s = 200 and kvs = "[(''hits'', PyList [])]"]
    by simp
  have d: "get_hacker_news_details
      (\<lambda>r. case r of HnSearch q \<Rightarrow> Response 200 (Some (PyDict ?kvs)) | _ \<Rightarrow> Failed) ?t
      = PyNone"
    using forum_none_is_ambiguous
      [where net = "\<lambda>r. case r of HnSearch q \<Rightarrow> Response 200 (Some (PyDict ?kvs))
                             | _ \<Rightarrow> Failed"
         and t = ?t and kvs = ?kvs and hit = ?hit and others = "[]"]
    by simp
  have e: "get_hacker_news_details
      (\<lambda>r. case r of HnSearch q \<Rightarrow> Response 200 (Some (PyDict ?kvs))
                  | _ \<Rightarrow> Response 200 None) ?t
      = PyNone"
    using forum_none_is_ambiguous
      [where net = "\<lambda>r. case r of HnSearch q \<Rightarrow> Response 200 (Some (PyDict ?kvs))
                             | _ \<Rightarrow> Response 200 None"
         and t = ?t and kvs = ?kvs and hit = ?hit and others = "[]"]
    by simp
  have f: "get_hacker_news_details
      (\<lambda>r. case r of HnSearch q \<Rightarrow> Response 200 (Some (PyDict ?kvs))
                  | _ \<Rightarrow> Response 503 None) ?t
      = PyDict [(''points'', PyInt 5), (''comments_count'', PyInt 0),
                (''objectID'', PyStr ''4242''), (''title'', PyNone),
                (''comments_preview'', PyList [])]"
    using forum_none_is_ambiguous
      [where net = "\<lambda>r. case r of HnSearch q \<Rightarrow> Response 200 (Some (PyDict ?kvs))
                             | _ \<Rightarrow> Response 503 None"
         and t = ?t and kvs = ?kvs and hit = ?hit and others = "[]" and s = 503 and b = None]
    by simp
  show ?thesis using a b c d e f by blast
qed

text \<open>
  The claim as worded, \<^verbatim>\<open>None\<close> on any non-success status code, fails on the comments
  request: with a hit found and status 503 for its comments the adapter returns the
  bundle.
\<close>

theorem forum_comments_status_is_not_none:
  "get_hacker_news_details
     (\<lambda>r. case r of
        HnSearch q \<Rightarrow> Response 200 (Some (PyDict [(''hits'',
          PyList [PyDict [(''objectID'', PyStr ''4242''), (''points'', PyInt 5)]])]))
      | _ \<Rightarrow> Response 503 None)
     ''Masami Systems: A Companion'' \<noteq> PyNone"
  by (simp add: get_hacker_news_details_def hn_try_def adapter_defs)



subsection \<open>Sentiment\<close>

lemma float_0_1_value: "float_0_1 = 3602879701896397 / 36028797018963968"
  by code_simp

lemma float_0_1_pos: "0 < float_0_1"
  by (simp add: float_0_1_value)

lemma sentiment_falsy: "\<not> py_bool x \<Longrightarrow> analyze_sentiment polarity x = ''N/A''"
  by (simp add: analyze_sentiment_def)

lemma sentiment_failure:
  "s \<noteq> [] \<Longrightarrow> polarity s = Inl e \<Longrightarrow> analyze_sentiment polarity (PyStr s) = ''N/A''"
  by (simp add: analyze_sentiment_def)

lemma sentiment_not_str:
  "py_bool x \<Longrightarrow> \<forall>s. x \<noteq> PyStr s \<Longrightarrow> analyze_sentiment polarity x = ''N/A''"
  by (cases x) (simp_all add: analyze_sentiment_def)

lemma sentiment_positive:
  "s \<noteq> [] \<Longrightarrow> polarity s = Inr pol \<Longrightarrow> pol > float_0_1
   \<Longrightarrow> analyze_sentiment polarity (PyStr s) = ''Positive''"
  by (simp add: analyze_sentiment_def)

lemma sentiment_negative:
  "s \<noteq> [] \<Longrightarrow> polarity s = Inr pol \<Longrightarrow> pol < - float_0_1
   \<Longrightarrow> analyze_sentiment polarity (PyStr s) = ''Negative''"
  using float_0_1_pos by (simp add: analyze_sentiment_def)

lemma sentiment_neutral:
  "s \<noteq> [] \<Longrightarrow> polarity s = Inr pol \<Longrightarrow> - float_0_1 \<le> pol \<Longrightarrow> pol \<le> float_0_1
   \<Longrightarrow> analyze_sentiment polarity (PyStr s) = ''Neutral''"
  by (simp add: analyze_sentiment_def)

text \<open>
  C8. The classifier returns \<^verbatim>\<open>"N/A"\<close> on \<^verbatim>\<open>None\<close>, on the empty string (on any falsy
  input) and on any failure of the analysis, which includes an input that is not a
  string. Otherwise, with \<open>pol\<close> the polarity computed, it returns \<^verbatim>\<open>"Positive"\<close> when
  \<open>pol > 0.1\<close>, \<^verbatim>\<open>"Negative"\<close> when \<open>pol < -0.1\<close> and \<^verbatim>\<open>"Neutral"\<close> when
  \<open>-0.1 \<le> pol \<le> 0.1\<close>, where \<open>0.1\<close> is the float the literal denotes.
\<close>

theorem sentiment_labels:
  "(\<not> py_bool x \<longrightarrow> analyze_sentiment polarity x = ''N/A'')
   \<and> analyze_sentiment polarity PyNone = ''N/A''
   \<and> analyze_sentiment polarity (PyStr []) = ''N/A''
   \<and> (s \<noteq> [] \<and> polarity s = Inl e \<longrightarrow> analyze_sentiment polarity (PyStr s) = ''N/A'')
   \<and> (py_bool x \<and> (\<forall>u. x \<noteq> PyStr u) \<longrightarrow> analyze_sentiment polarity x = ''N/A'')
   \<and> (s \<noteq> [] \<and> polarity s = Inr pol \<and> pol > float_0_1
        \<longrightarrow> analyze_sentiment polarity (PyStr s) = ''Positive'')
   \<and> (s \<noteq> [] \<and> polarity s = Inr pol \<and> pol < - float_0_1
        \<longrightarrow> analyze_sentiment polarity (PyStr s) = ''Negative'')
   \<and> (s \<noteq> [] \<and> polarity s = Inr pol \<and> - float_0_1 \<le> pol \<and> pol \<le> float_0_1
        \<longrightarrow> analyze_sentiment polarity (PyStr s) = ''Neutral'')
   \<and> float_0_1 = 3602879701896397 / 36028797018963968"
proof (intro conjI impI, goal_cases)
  case 1 then show ?case by (rule sentiment_falsy)
next
  case 2 show ?case by (rule sentiment_falsy) simp
next
  case 3 show ?case by (rule sentiment_falsy) simp
next
  case 4 then show ?case using sentiment_failure [of s polarity e] by blast
next
  case 5 then show ?case using sentiment_not_str [of x polarity] by blast
next
  case 6 then show ?case using sentiment_positive [of s polarity pol] by blast
next
  case 7 then show ?case using sentiment_negative [of s polarity pol] by blast
next
  case 8 then show ?case using sentiment_neutral [of s polarity pol] by blast
next
  case 9 show ?case by (rule float_0_1_value)
qed

theorem sentiment_labels_witness:
  "analyze_sentiment (\<lambda>s. if s = ''bad bytes'' then Inl LibraryError else Inr (4 / 5))
     (PyStr ''great work'') = ''Positive''
   \<and> analyze_sentiment (\<lambda>s. if s = ''bad bytes'' then Inl LibraryError else Inr (- 1 / 2))
     (PyStr ''awful'') = ''Negative''
   \<and> analyze_sentiment (\<lambda>s. if s = ''bad bytes'' then Inl LibraryError else Inr (1 / 16))
     (PyStr ''a paper'') = ''Neutral''
   \<and> analyze_sentiment (\<lambda>s. if s = ''bad bytes'' then Inl LibraryError else Inr (4 / 5))
     (PyStr ''bad bytes'') = ''N/A''
   \<and> analyze_sentiment (\<lambda>s. Inr (4 / 5)) (PyStr []) = ''N/A''
   \<and> analyze_sentiment (\<lambda>s. Inr (4 / 5)) (PyInt 7) = ''N/A''"
proof -
  let ?p = "\<lambda>q. (\<lambda>s. if s = ''bad bytes'' then Inl LibraryError else Inr (q :: rat))"
  have v: "float_0_1 = 3602879701896397 / 36028797018963968"
    using sentiment_labels [of PyNone "?p 0" "[]" LibraryError 0] by blast
  have a: "analyze_sentiment (?p (4 / 5)) (PyStr ''great work'') = ''Positive''"
    using sentiment_labels [of PyNone "?p (4 / 5)" "''great work''" LibraryError "4 / 5"] v
    by simp
  have b: "analyze_sentiment (?p (- 1 / 2)) (PyStr ''awful'') = ''Negative''"
    using sentiment_labels [of PyNone "?p (- 1 / 2)" "''awful''" LibraryError "- 1 / 2"] v
    by simp
  have c: "analyze_sentiment (?p (1 / 16)) (PyStr ''a paper'') = ''Neutral''"
    using sentiment_labels [of PyNone "?p (1 / 16)" "''a paper''" LibraryError "1 / 16"] v
    by simp
  have d: "analyze_sentiment (?p (4 / 5)) (PyStr ''bad bytes'') = ''N/A''"
    using sentiment_labels [of PyNone "?p (4 / 5)" "''bad bytes''" LibraryError "4 / 5"]
    by simp
  have e: "analyze_sentiment (\<lambda>s. Inr (4 / 5)) (PyStr []) = ''N/A''"
    using sentiment_labels [of "PyStr []" "\<lambda>s. Inr (4 / 5)" "[]" LibraryError 0] by simp
  have f: "analyze_sentiment (\<lambda>s. Inr (4 / 5)) (PyInt 7) = ''N/A''"
    using sentiment_labels [of "PyInt 7" "\<lambda>s. Inr (4 / 5)" "[]" LibraryError 0] by simp
  show ?thesis using a b c d e f by blast
qed

subsection \<open>Corpus statistics\<close>






subsection \<open>The download rate and the main loop\<close>

lemma rate_text_error: "rate_text d v = Inl e \<Longrightarrow> v \<noteq> 0 \<Longrightarrow> e = OverflowError"
  by (auto simp: rate_text_def py_true_div_def and_then_def Let_def split: if_splits)


lemma dl_rate_of_error: "dl_rate_of views downloads = Inl e \<Longrightarrow> e = OverflowError"
  by (auto simp: dl_rate_of_def split: option.splits if_splits dest: rate_text_error)



lemma dl_rate_of_no_views:
  "dl_rate_of (PyStr s) x = Inr ''-''" "dl_rate_of PyNone x = Inr ''-''"
  by (simp_all add: dl_rate_of_def)

lemma collect_item_Inr:
  "collect_item w cache item = Inr r \<Longrightarrow>
     Title r = title item \<and> Platform r = platform item \<and> DOI r = doi item
     \<and> dl_rate_of (Views r) (Downloads r) = Inr (DL_Rate r)"
  by (auto simp: collect_item_def Let_def and_then_def split: sum.splits prod.splits if_splits)

lemma collect_item_Inl:
  "collect_item w cache item = Inl e \<Longrightarrow> e = OverflowError \<and> platform item = ''Zenodo''"
  by (auto simp: collect_item_def Let_def and_then_def dl_rate_of_no_views
      split: sum.splits prod.splits if_splits dest: dl_rate_of_error)







lemma main_loop_Inr:
  "main_loop worlds cache i pubs records = Inr out \<Longrightarrow>
     \<exists>new. out = records @ new
       \<and> map Title new = map title pubs
       \<and> map Platform new = map platform pubs
       \<and> map DOI new = map doi pubs"
proof (induction pubs arbitrary: i records)
  case Nil
  then show ?case by simp
next
  case (Cons item rest)
  from Cons.prems obtain r where
    r: "collect_item (worlds i) cache item = Inr r"
    and rest: "main_loop worlds cache (Suc i) rest (records @ [r]) = Inr out"
    by (auto simp: and_then_def split: sum.splits)
  from Cons.IH [OF rest] obtain new where
    new: "out = (records @ [r]) @ new" "map Title new = map title rest"
      "map Platform new = map platform rest" "map DOI new = map doi rest"
    by blast
  have "out = records @ (r # new)" using new(1) by simp
  moreover have "map Title (r # new) = map title (item # rest)"
    "map Platform (r # new) = map platform (item # rest)"
    "map DOI (r # new) = map doi (item # rest)"
    using new(2-4) collect_item_Inr [OF r] by simp_all
  ultimately show ?case by blast
qed

lemma main_loop_Inl:
  "main_loop worlds cache i pubs records = Inl e \<Longrightarrow>
     e = OverflowError \<and> (\<exists>p \<in> set pubs. platform p = ''Zenodo'')"
proof (induction pubs arbitrary: i records)
  case Nil
  then show ?case by simp
next
  case (Cons item rest)
  show ?case
  proof (cases "collect_item (worlds i) cache item")
    case (Inl e')
    then have "e' = e" using Cons.prems by (simp add: and_then_def)
    then show ?thesis using Inl collect_item_Inl [of "worlds i" cache item e] by simp
  next
    case (Inr r)
    then have "main_loop worlds cache (Suc i) rest (records @ [r]) = Inl e"
      using Cons.prems by (simp add: and_then_def)
    from Cons.IH [OF this] show ?thesis by simp
  qed
qed

text \<open>
  What the loop does in all: it ends with an uncaught \<open>OverflowError\<close>, which needs a
  Zenodo publication, or it leaves one record per publication, in the order of the
  input, with that publication's title, platform and identifier.
\<close>

lemma collect_records_cases:
  "collect_records worlds cache pubs = Inl OverflowError
   \<or> (\<exists>out. collect_records worlds cache pubs = Inr out
          \<and> length out = length pubs
          \<and> map Title out = map title pubs
          \<and> map Platform out = map platform pubs
          \<and> map DOI out = map doi pubs)"
proof (cases "collect_records worlds cache pubs")
  case (Inl e)
  then show ?thesis
    using main_loop_Inl [of worlds cache 0 pubs "[]" e] by (simp add: collect_records_def)
next
  case (Inr out)
  then obtain new where "out = [] @ new" "map Title new = map title pubs"
    "map Platform new = map platform pubs" "map DOI new = map doi pubs"
    using main_loop_Inr [of worlds cache 0 pubs "[]" out]
    by (auto simp: collect_records_def)
  moreover from this have "length out = length pubs"
    by (metis append_Nil length_map)
  ultimately show ?thesis using Inr by simp
qed

lemma collect_records_without_registry:
  "\<forall>p \<in> set pubs. platform p \<noteq> ''Zenodo'' \<Longrightarrow>
     \<exists>out. collect_records worlds cache pubs = Inr out"
proof (cases "collect_records worlds cache pubs")
  case (Inl e)
  then have "\<exists>p \<in> set pubs. platform p = ''Zenodo''"
    using main_loop_Inl [of worlds cache 0 pubs "[]" e] by (simp add: collect_records_def)
  moreover assume "\<forall>p \<in> set pubs. platform p \<noteq> ''Zenodo''"
  ultimately show ?thesis by blast
next
  case (Inr out)
  then show ?thesis by blast
qed

text \<open>
  C9 (where the code departs from it). The registry answers the third publication of
  \<^verbatim>\<open>DOIs\<close> with \<^verbatim>\<open>unique_views = 1\<close> and \<^verbatim>\<open>unique_downloads = 2 ** 1024\<close>: both are ints
  and views is positive, so the loop evaluates \<^verbatim>\<open>downloads / views\<close>, which raises
  \<open>OverflowError\<close> outside any \<^verbatim>\<open>try\<close>. The script ends there and leaves no record
  list; the same happens with that publication alone.
\<close>

theorem main_loop_aborts_on_float_overflow:
  "collect_records
     (\<lambda>i. \<lparr>requests_get = (\<lambda>r. case r of
          ZenodoRecords d \<Rightarrow> Response 200 (Some (PyDict [(''hits'', PyDict [(''total'', PyInt 1),
            (''hits'', PyList [PyDict [(''stats'',
               PyDict [(''unique_views'', PyInt 1),
                       (''unique_downloads'', PyInt (2 ^ 1024))])]])])]))
        | _ \<Rightarrow> Failed),
        google_search = (\<lambda>q. Done)\<rparr>)
     [] DOIs
   = Inl OverflowError
   \<and> collect_records
     (\<lambda>i. \<lparr>requests_get = (\<lambda>r. case r of
          ZenodoRecords d \<Rightarrow> Response 200 (Some (PyDict [(''hits'', PyDict [(''total'', PyInt 1),
            (''hits'', PyList [PyDict [(''stats'',
               PyDict [(''unique_views'', PyInt 1),
                       (''unique_downloads'', PyInt (2 ^ 1024))])]])])]))
        | _ \<Rightarrow> Failed),
        google_search = (\<lambda>q. Done)\<rparr>)
     []
     [\<lparr>doi = ''10.5281/zenodo.17428600'', title = ''Technical Letter (ZIP)'',
       platform = ''Zenodo''\<rparr>]
   = Inl OverflowError"
  by code_simp


end
